theory Spec2Isabelle
  imports Main
begin

section \<open>Exceptions and JavaScript values\<close>

text \<open>
  The NestJS exception classes the code throws, each with its message. \<open>TypeError\<close> is the
  runtime error of reading a property of \<open>null\<close>/\<open>undefined\<close>; \<open>Error\<close> stands for a failure
  raised by the persistence layer.
\<close>

datatype exn =
    NotFoundException string
  | UnauthorizedException string
  | ForbiddenException string
  | InternalServerErrorException string
  | TypeError string
  | Error string

text \<open>
  The values that occur as properties of the request's \<open>user\<close> object. An object is a map
  from property names to values; reading a property the object does not have gives
  \<open>undefined\<close>, which is \<open>None\<close>.
\<close>

datatype jsval = JString string | JBool bool | JStrings "string list"

type_synonym jsobject = "string \<rightharpoonup> jsval"

text \<open>JavaScript truthiness, as \<open>!x\<close> and \<open>x || y\<close> use it.\<close>

fun truthy :: "jsval option \<Rightarrow> bool" where
  "truthy None = False"
| "truthy (Some (JString s)) = (s \<noteq> [])"
| "truthy (Some (JBool b)) = b"
| "truthy (Some (JStrings xs)) = True"

text \<open>\<open>obj?.k\<close>: \<open>undefined\<close> when the object itself is missing.\<close>

definition getProp :: "jsobject option \<Rightarrow> string \<Rightarrow> jsval option" where
  "getProp obj k = (case obj of None \<Rightarrow> None | Some m \<Rightarrow> m k)"

text \<open>\<open>Array.prototype.includes\<close> on an array of strings: only a string can be found.\<close>

definition array_includes :: "string list \<Rightarrow> jsval option \<Rightarrow> bool" where
  "array_includes rs v = (case v of Some (JString s) \<Rightarrow> s \<in> set rs | _ \<Rightarrow> False)"

text \<open>\<open>Array.prototype.join\<close>.\<close>

fun join :: "string \<Rightarrow> string list \<Rightarrow> string" where
  "join sep [] = []"
| "join sep [x] = x"
| "join sep (x # y # ys) = x @ sep @ join sep (y # ys)"

section \<open>The access-control gate (role-guard.ts)\<close>

text \<open>
  The part of the HTTP request the guard reads: \<open>request.user\<close> and
  \<open>request.organizationId\<close>.
\<close>

record Request =
  req_user :: "jsobject option"
  req_organizationId :: "jsval option"

text \<open>
  \<open>RolesGuard.canActivate\<close>. The first argument is what the reflector returns for
  \<open>ROLES_KEY\<close> (\<open>None\<close> when the route declares no roles). A thrown \<open>ForbiddenException\<close> is
  \<open>Inl\<close>.
\<close>

definition canActivate :: "string list option \<Rightarrow> Request \<Rightarrow> exn + bool" where
  "canActivate requiredRoles request =
     (case requiredRoles of
        None \<Rightarrow> Inr True
      | Some rs \<Rightarrow>
          if rs = [] then Inr True
          else
            let user = req_user request in
            if \<not> truthy (getProp user ''userId'') \<or> \<not> truthy (getProp user ''roleName'')
            then Inl (ForbiddenException ''Missing userId or roleName in token'')
            else if getProp user ''roleName'' = Some (JString ''organizationAdmin'')
            then
              (let organizationId = req_organizationId request in
               if \<not> truthy organizationId
               then Inl (ForbiddenException ''Organization context missing'')
               else Inr True)
            else if \<not> array_includes rs (getProp user ''roleName'')
            then Inl (ForbiddenException
                        (''Access denied. Required roles: '' @ join '', '' rs))
            else Inr True)"

section \<open>The persisted data, as the queries return it\<close>

text \<open>
  The rows the Prisma queries return, with the relations their \<open>include\<close> clauses join.
  The schema is not part of the sources, so a joined relation that the code reads through
  \<open>?.\<close> or inside a \<open>try\<close> may be missing (\<open>None\<close>).
\<close>

record Role =
  roleName :: string

record UserRole =
  ur_role :: "Role option"

record Feature =
  feature :: string

record Organization =
  org_id :: string
  org_userId :: string
  org_features :: "Feature list"

record UserOffice =
  uo_organization :: "Organization option"

record User =
  user_id :: string
  user_email :: string
  user_password :: string
  user_userName :: string
  userRoles :: "UserRole list"
  userOffice :: "UserOffice list"

text \<open>
  The persistence layer: the two tables the code queries, and for each table the exception
  its queries throw when data access fails (\<open>None\<close>: the queries succeed).
\<close>

record Prisma =
  users :: "User list"
  organizations :: "Organization list"
  userFault :: "exn option"
  organizationFault :: "exn option"

text \<open>\<open>prisma.user.findUnique({ where: { id } })\<close>: \<open>null\<close> when no row matches.\<close>

definition user_findUnique_id :: "Prisma \<Rightarrow> string \<Rightarrow> exn + User option" where
  "user_findUnique_id prisma userId =
     (case userFault prisma of
        Some e \<Rightarrow> Inl e
      | None \<Rightarrow> Inr (find (\<lambda>u. user_id u = userId) (users prisma)))"

text \<open>\<open>prisma.user.findUnique({ where: { email } })\<close>.\<close>

definition user_findUnique_email :: "Prisma \<Rightarrow> string \<Rightarrow> exn + User option" where
  "user_findUnique_email prisma mail =
     (case userFault prisma of
        Some e \<Rightarrow> Inl e
      | None \<Rightarrow> Inr (find (\<lambda>u. user_email u = mail) (users prisma)))"

text \<open>\<open>prisma.organization.findFirst({ where: { userId } })\<close>.\<close>

definition organization_findFirst :: "Prisma \<Rightarrow> string \<Rightarrow> exn + Organization option" where
  "organization_findFirst prisma userId =
     (case organizationFault prisma of
        Some e \<Rightarrow> Inl e
      | None \<Rightarrow> Inr (find (\<lambda>org. org_userId org = userId) (organizations prisma)))"

section \<open>Expressions shared by the resolver and the validator\<close>

text \<open>
  \<open>user.userRoles[0]?.role.roleName || 'user'\<close>: with no binding the chain is \<open>undefined\<close>
  and the default applies; a first binding without its role row makes \<open>.roleName\<close> throw;
  an empty role name is falsy and the default applies.
\<close>

definition firstRoleName :: "User \<Rightarrow> exn + string" where
  "firstRoleName user =
     (case userRoles user of
        [] \<Rightarrow> Inr ''user''
      | ur # _ \<Rightarrow>
          (case ur_role ur of
             None \<Rightarrow> Inl (TypeError ''Cannot read properties of undefined (reading roleName)'')
           | Some r \<Rightarrow> Inr (if roleName r = [] then ''user'' else roleName r)))"

text \<open>
  \<open>userRoles.some(ur => ur.role.roleName === 'superAdmin')\<close>: stops at the first match,
  throws at a binding without its role row met before one.
\<close>

fun someSuperAdmin :: "UserRole list \<Rightarrow> exn + bool" where
  "someSuperAdmin [] = Inr False"
| "someSuperAdmin (ur # urs) =
     (case ur_role ur of
        None \<Rightarrow> Inl (TypeError ''Cannot read properties of undefined (reading roleName)'')
      | Some r \<Rightarrow> if roleName r = ''superAdmin'' then Inr True else someSuperAdmin urs)"

text \<open>\<open>user.userOffice[0]?.organization\<close>.\<close>

definition firstOrganization :: "User \<Rightarrow> Organization option" where
  "firstOrganization user =
     (case userOffice user of [] \<Rightarrow> None | uo # _ \<Rightarrow> uo_organization uo)"

text \<open>\<open>xs.filter(Boolean)\<close> on strings: the empty string is the falsy one.\<close>

definition filterBoolean :: "string list \<Rightarrow> string list" where
  "filterBoolean xs = filter (\<lambda>s. s \<noteq> []) xs"

section \<open>The entitlement resolver (auth.service.ts)\<close>

text \<open>The \<open>JwtPayload\<close> interface of auth.interface.ts.\<close>

record JwtPayload =
  sub :: string
  email :: string
  role :: string
  organizationId :: "string option"
  features :: "string list"
  isSuperAdmin :: bool

text \<open>
  The body of the \<open>try\<close> block of \<open>generateTokenPayload\<close>. \<open>ALL_FEATURES\<close> is the constant the
  code imports from \<open>common/constants/features\<close>, which is not among the sources: it is a
  parameter.
\<close>

definition generateTokenPayload_try :: "string list \<Rightarrow> Prisma \<Rightarrow> string \<Rightarrow> exn + JwtPayload" where
  "generateTokenPayload_try ALL_FEATURES prisma userId =
     (case user_findUnique_id prisma userId of
        Inl e \<Rightarrow> Inl e
      | Inr None \<Rightarrow> Inl (NotFoundException ''User not found'')
      | Inr (Some user) \<Rightarrow>
          (case firstRoleName user of
             Inl e \<Rightarrow> Inl e
           | Inr r \<Rightarrow>
               let isSA = (r = ''superAdmin'');
                   organization = firstOrganization user;
                   orgId = (if isSA then None else map_option org_id organization);
                   fs = (if isSA then ALL_FEATURES
                         else case organization of
                                Some org \<Rightarrow> filterBoolean (map feature (org_features org))
                              | None \<Rightarrow> [])
               in Inr \<lparr>sub = user_id user, email = user_email user, role = r,
                        organizationId = orgId, features = fs, isSuperAdmin = isSA\<rparr>))"

text \<open>
  \<open>generateTokenPayload\<close>: the \<open>catch\<close> clause replaces every exception thrown in the body,
  whatever its class, by \<open>InternalServerErrorException('Error generating auth token')\<close>.
\<close>

definition generateTokenPayload :: "string list \<Rightarrow> Prisma \<Rightarrow> string \<Rightarrow> exn + JwtPayload" where
  "generateTokenPayload ALL_FEATURES prisma userId =
     (case generateTokenPayload_try ALL_FEATURES prisma userId of
        Inl e \<Rightarrow> Inl (InternalServerErrorException ''Error generating auth token'')
      | Inr payload \<Rightarrow> Inr payload)"

text \<open>
  The \<open>generateTokenPayload\<close> of the second auth service (src/unnamed/part_000). For a user
  who is not superadmin it looks the organization up by \<open>organization.userId\<close>, in a \<open>try\<close>
  of its own whose \<open>catch\<close> leaves \<open>organizationId\<close> undefined and sets \<open>features = []\<close>;
  the feature strings are not filtered.
\<close>

definition generateTokenPayload_alt_try :: "string list \<Rightarrow> Prisma \<Rightarrow> string \<Rightarrow> exn + JwtPayload" where
  "generateTokenPayload_alt_try ALL_FEATURES prisma userId =
     (case user_findUnique_id prisma userId of
        Inl e \<Rightarrow> Inl e
      | Inr None \<Rightarrow> Inl (NotFoundException ''User not found'')
      | Inr (Some user) \<Rightarrow>
          (case firstRoleName user of
             Inl e \<Rightarrow> Inl e
           | Inr r \<Rightarrow>
               if r = ''superAdmin''
               then Inr \<lparr>sub = user_id user, email = user_email user, role = r,
                         organizationId = None, features = ALL_FEATURES, isSuperAdmin = True\<rparr>
               else
                 (case organization_findFirst prisma (user_id user) of
                    Inl err \<Rightarrow>
                      Inr \<lparr>sub = user_id user, email = user_email user, role = r,
                           organizationId = None, features = [], isSuperAdmin = False\<rparr>
                  | Inr org \<Rightarrow>
                      Inr \<lparr>sub = user_id user, email = user_email user, role = r,
                           organizationId = map_option org_id org,
                           features = (case org of
                                         Some g \<Rightarrow> map feature (org_features g)
                                       | None \<Rightarrow> []),
                           isSuperAdmin = False\<rparr>)))"

definition generateTokenPayload_alt :: "string list \<Rightarrow> Prisma \<Rightarrow> string \<Rightarrow> exn + JwtPayload" where
  "generateTokenPayload_alt ALL_FEATURES prisma userId =
     (case generateTokenPayload_alt_try ALL_FEATURES prisma userId of
        Inl e \<Rightarrow> Inl (InternalServerErrorException ''Error generating auth token'')
      | Inr payload \<Rightarrow> Inr payload)"

section \<open>Login\<close>

record LoginDto =
  dto_email :: string
  dto_password :: string

text \<open>The \<open>AuthResponse\<close> interface: every field of \<open>user\<close> after \<open>userName\<close> is optional.\<close>

record AuthUser =
  au_id :: string
  au_email :: string
  au_userName :: string
  au_role :: "string option"
  au_organizationId :: "string option"
  au_features :: "string list option"
  au_isSuperAdmin :: "bool option"

record AuthResponse =
  token :: string
  ar_user :: AuthUser

text \<open>
  The \<open>catch\<close> clause of both \<open>login\<close> methods: \<open>NotFoundException\<close> and
  \<open>UnauthorizedException\<close> are rethrown, anything else becomes
  \<open>InternalServerErrorException('Login failed')\<close>.
\<close>

fun login_catch :: "exn \<Rightarrow> exn" where
  "login_catch (NotFoundException m) = NotFoundException m"
| "login_catch (UnauthorizedException m) = UnauthorizedException m"
| "login_catch e = InternalServerErrorException ''Login failed''"

text \<open>
  \<open>login\<close> of auth.service.ts. \<open>compare\<close> is \<open>bcrypt.compare\<close> and \<open>sign\<close> is
  \<open>jwtService.sign\<close>, both library functions.
\<close>

definition login ::
  "(string \<Rightarrow> string \<Rightarrow> bool) \<Rightarrow> (JwtPayload \<Rightarrow> string) \<Rightarrow> string list \<Rightarrow> Prisma \<Rightarrow> LoginDto
     \<Rightarrow> exn + AuthResponse" where
  "login compare sign ALL_FEATURES prisma dto =
     (case
        (case user_findUnique_email prisma (dto_email dto) of
           Inl e \<Rightarrow> Inl e
         | Inr None \<Rightarrow> Inl (NotFoundException ''User not found'')
         | Inr (Some user) \<Rightarrow>
             if \<not> compare (dto_password dto) (user_password user)
             then Inl (UnauthorizedException ''Invalid credentials'')
             else
               (case generateTokenPayload ALL_FEATURES prisma (user_id user) of
                  Inl e \<Rightarrow> Inl e
                | Inr payload \<Rightarrow>
                    Inr \<lparr>token = sign payload,
                         ar_user = \<lparr>au_id = user_id user, au_email = user_email user,
                                    au_userName = user_userName user,
                                    au_role = Some (role payload),
                                    au_organizationId = organizationId payload,
                                    au_features = Some (features payload),
                                    au_isSuperAdmin = Some (isSuperAdmin payload)\<rparr>\<rparr>))
      of
        Inl e \<Rightarrow> Inl (login_catch e)
      | Inr response \<Rightarrow> Inr response)"

text \<open>
  \<open>login\<close> of the second auth service (src/unnamed/part_000). After the password check it
  derives the role in a \<open>try\<close> whose \<open>catch\<close> returns a response with an empty token. The
  block that follows (lines 187 to 206) only assigns the locals \<open>organizationId\<close> and
  \<open>features\<close>, which nothing reads afterwards, and catches everything it throws: it has no
  part in the result.
\<close>

definition login_alt ::
  "(string \<Rightarrow> string \<Rightarrow> bool) \<Rightarrow> (JwtPayload \<Rightarrow> string) \<Rightarrow> string list \<Rightarrow> Prisma \<Rightarrow> LoginDto
     \<Rightarrow> exn + AuthResponse" where
  "login_alt compare sign ALL_FEATURES prisma dto =
     (case
        (case user_findUnique_email prisma (dto_email dto) of
           Inl e \<Rightarrow> Inl e
         | Inr None \<Rightarrow> Inl (NotFoundException ''User not found'')
         | Inr (Some user) \<Rightarrow>
             if \<not> compare (dto_password dto) (user_password user)
             then Inl (UnauthorizedException ''Invalid credentials'')
             else
               (case firstRoleName user of
                  Inl err \<Rightarrow>
                    Inr \<lparr>token = [],
                         ar_user = \<lparr>au_id = user_id user, au_email = user_email user,
                                    au_userName = user_userName user,
                                    au_role = None,
                                    au_organizationId = None,
                                    au_features = Some [],
                                    au_isSuperAdmin = Some False\<rparr>\<rparr>
                | Inr r \<Rightarrow>
                    (case generateTokenPayload_alt ALL_FEATURES prisma (user_id user) of
                       Inl e \<Rightarrow> Inl e
                     | Inr payload \<Rightarrow>
                         Inr \<lparr>token = sign payload,
                              ar_user = \<lparr>au_id = user_id user, au_email = user_email user,
                                         au_userName = user_userName user,
                                         au_role = Some (role payload),
                                         au_organizationId = organizationId payload,
                                         au_features = Some (features payload),
                                         au_isSuperAdmin = Some (isSuperAdmin payload)\<rparr>\<rparr>)))
      of
        Inl e \<Rightarrow> Inl (login_catch e)
      | Inr response \<Rightarrow> Inr response)"

section \<open>The credential validator (jwt.strategy.ts)\<close>

text \<open>
  The \<open>JwtPayload\<close> interface of jwt.strategy.ts: the decoded payload Passport hands to
  \<open>validate\<close> once signature and expiry are verified. \<open>sub\<close> and \<open>email\<close> are declared
  \<open>string\<close>; \<open>validate\<close> only asks whether they are falsy, which an absent field and the
  empty string both are, so an absent one is the empty string here.
\<close>

record TokenPayload =
  t_sub :: string
  t_email :: string
  t_organizationId :: "string option"
  t_features :: "string list option"
  t_role :: "string option"
  t_iat :: "nat option"
  t_exp :: "nat option"

text \<open>The object \<open>validate\<close> returns, which Passport stores as \<open>request.user\<close>.\<close>

record Principal =
  p_id :: string
  p_email :: string
  p_organizationId :: "string option"
  p_features :: "string list"
  p_isSuperAdmin :: bool
  p_role :: string

text \<open>The body of the \<open>try\<close> block of \<open>JwtStrategy.validate\<close>.\<close>

definition validate_try :: "Prisma \<Rightarrow> TokenPayload \<Rightarrow> exn + Principal" where
  "validate_try prisma payload =
     (if t_sub payload = [] \<or> t_email payload = []
      then Inl (UnauthorizedException ''Invalid token format'')
      else
        case user_findUnique_id prisma (t_sub payload) of
          Inl e \<Rightarrow> Inl e
        | Inr None \<Rightarrow> Inl (UnauthorizedException ''User not found'')
        | Inr (Some user) \<Rightarrow>
            let organization = firstOrganization user;
                orgId = map_option org_id organization;
                fs = (case organization of
                        Some org \<Rightarrow> map feature (org_features org)
                      | None \<Rightarrow> [])
            in
              (case someSuperAdmin (userRoles user) of
                 Inl e \<Rightarrow> Inl e
               | Inr isSA \<Rightarrow>
                   if \<not> isSA \<and> (orgId = None \<or> orgId = Some [])
                   then Inl (UnauthorizedException ''User has no organization access'')
                   else
                     (case firstRoleName user of
                        Inl e \<Rightarrow> Inl e
                      | Inr r \<Rightarrow>
                          Inr \<lparr>p_id = user_id user, p_email = user_email user,
                               p_organizationId = orgId, p_features = fs,
                               p_isSuperAdmin = isSA, p_role = r\<rparr>)))"

text \<open>
  The \<open>catch\<close> clause of \<open>validate\<close>: an \<open>UnauthorizedException\<close> is rethrown, anything else
  becomes \<open>UnauthorizedException('Authentication failed')\<close>.
\<close>

fun validate_catch :: "exn \<Rightarrow> exn" where
  "validate_catch (UnauthorizedException m) = UnauthorizedException m"
| "validate_catch e = UnauthorizedException ''Authentication failed''"

definition validate :: "Prisma \<Rightarrow> TokenPayload \<Rightarrow> exn + Principal" where
  "validate prisma payload =
     (case validate_try prisma payload of
        Inl e \<Rightarrow> Inl (validate_catch e)
      | Inr p \<Rightarrow> Inr p)"

text \<open>
  The object literal \<open>validate\<close> returns, as the map from its property names to their
  values; \<open>organizationId: undefined\<close> reads like an absent property.
\<close>

definition requestUser :: "Principal \<Rightarrow> jsobject" where
  "requestUser p =
     (\<lambda>k. if k = ''id'' then Some (JString (p_id p))
          else if k = ''email'' then Some (JString (p_email p))
          else if k = ''organizationId'' then map_option JString (p_organizationId p)
          else if k = ''features'' then Some (JStrings (p_features p))
          else if k = ''isSuperAdmin'' then Some (JBool (p_isSuperAdmin p))
          else if k = ''role'' then Some (JString (p_role p))
          else None)"

text \<open>
  The signing subsystem (\<open>JwtService.sign\<close>, and the verification passport-jwt does before it
  calls \<open>validate\<close>) is library code. A token signed from a payload and accepted by the
  strategy decodes to the claims that were signed, with the issued-at and expiry
  timestamps the library adds.
\<close>

definition decoded :: "JwtPayload \<Rightarrow> nat \<Rightarrow> nat \<Rightarrow> TokenPayload" where
  "decoded payload iat exp =
     \<lparr>t_sub = sub payload, t_email = email payload,
      t_organizationId = organizationId payload,
      t_features = Some (features payload), t_role = Some (role payload),
      t_iat = Some iat, t_exp = Some exp\<rparr>"

section \<open>Sample data\<close>

text \<open>
  A small database on which the theorems below are evaluated: a superadmin who also has an
  office, two organization admins (the first organization has a feature row with an empty
  string), a user whose superAdmin binding is the second one, a user with neither role nor
  office, a user whose role binding has lost its role row, and a user with an empty email.
\<close>

definition sample_features :: "string list" where
  "sample_features = [''reports'', ''billing'', ''audit'']"

definition org1 :: Organization where
  "org1 = \<lparr>org_id = ''org1'', org_userId = ''u2'',
           org_features = [\<lparr>feature = ''reports''\<rparr>, \<lparr>feature = []\<rparr>]\<rparr>"

definition org2 :: Organization where
  "org2 = \<lparr>org_id = ''org2'', org_userId = ''u3'',
           org_features = [\<lparr>feature = ''reports''\<rparr>, \<lparr>feature = ''billing''\<rparr>]\<rparr>"

definition sample_users :: "User list" where
  "sample_users =
     [\<lparr>user_id = ''u1'', user_email = ''root@od.test'', user_password = ''h1'',
       user_userName = ''root'',
       userRoles = [\<lparr>ur_role = Some \<lparr>roleName = ''superAdmin''\<rparr>\<rparr>],
       userOffice = [\<lparr>uo_organization = Some org2\<rparr>]\<rparr>,
      \<lparr>user_id = ''u2'', user_email = ''ann@od.test'', user_password = ''h2'',
       user_userName = ''ann'',
       userRoles = [\<lparr>ur_role = Some \<lparr>roleName = ''organizationAdmin''\<rparr>\<rparr>],
       userOffice = [\<lparr>uo_organization = Some org1\<rparr>]\<rparr>,
      \<lparr>user_id = ''u3'', user_email = ''bob@od.test'', user_password = ''h3'',
       user_userName = ''bob'',
       userRoles = [\<lparr>ur_role = Some \<lparr>roleName = ''organizationAdmin''\<rparr>\<rparr>],
       userOffice = [\<lparr>uo_organization = Some org2\<rparr>]\<rparr>,
      \<lparr>user_id = ''u4'', user_email = ''cy@od.test'', user_password = ''h4'',
       user_userName = ''cy'',
       userRoles = [\<lparr>ur_role = Some \<lparr>roleName = ''manager''\<rparr>\<rparr>,
                    \<lparr>ur_role = Some \<lparr>roleName = ''superAdmin''\<rparr>\<rparr>],
       userOffice = []\<rparr>,
      \<lparr>user_id = ''u5'', user_email = ''dee@od.test'', user_password = ''h5'',
       user_userName = ''dee'',
       userRoles = [],
       userOffice = []\<rparr>,
      \<lparr>user_id = ''u6'', user_email = ''eli@od.test'', user_password = ''h6'',
       user_userName = ''eli'',
       userRoles = [\<lparr>ur_role = None\<rparr>],
       userOffice = []\<rparr>,
      \<lparr>user_id = ''u7'', user_email = [], user_password = ''h7'',
       user_userName = ''fay'',
       userRoles = [\<lparr>ur_role = Some \<lparr>roleName = ''organizationAdmin''\<rparr>\<rparr>],
       userOffice = [\<lparr>uo_organization = Some org2\<rparr>]\<rparr>]"

definition sample_prisma :: Prisma where
  "sample_prisma = \<lparr>users = sample_users, organizations = [org1, org2],
                     userFault = None, organizationFault = None\<rparr>"

text \<open>The decoded payload of a token for a given subject and email.\<close>

definition tokenFor :: "string \<Rightarrow> string \<Rightarrow> TokenPayload" where
  "tokenFor s e = \<lparr>t_sub = s, t_email = e, t_organizationId = None, t_features = None,
                   t_role = None, t_iat = Some 0, t_exp = Some 3600\<rparr>"

section \<open>Auxiliary facts\<close>

lemmas sample_defs =
  sample_prisma_def sample_users_def org1_def org2_def sample_features_def tokenFor_def

lemmas query_defs =
  user_findUnique_id_def user_findUnique_email_def organization_findFirst_def

lemmas expr_defs = firstRoleName_def firstOrganization_def filterBoolean_def

lemmas gen_defs =
  generateTokenPayload_def generateTokenPayload_try_def
  generateTokenPayload_alt_def generateTokenPayload_alt_try_def

lemmas val_defs = validate_def validate_try_def decoded_def

lemma sample_user_u1:
  "user_findUnique_id sample_prisma ''u1'' =
     Inr (Some \<lparr>user_id = ''u1'', user_email = ''root@od.test'', user_password = ''h1'',
                user_userName = ''root'',
                userRoles = [\<lparr>ur_role = Some \<lparr>roleName = ''superAdmin''\<rparr>\<rparr>],
                userOffice = [\<lparr>uo_organization = Some org2\<rparr>]\<rparr>)"
  by (simp add: user_findUnique_id_def sample_prisma_def sample_users_def)

lemma sample_user_u3:
  "user_findUnique_id sample_prisma ''u3'' =
     Inr (Some \<lparr>user_id = ''u3'', user_email = ''bob@od.test'', user_password = ''h3'',
                user_userName = ''bob'',
                userRoles = [\<lparr>ur_role = Some \<lparr>roleName = ''organizationAdmin''\<rparr>\<rparr>],
                userOffice = [\<lparr>uo_organization = Some org2\<rparr>]\<rparr>)"
  by (simp add: user_findUnique_id_def sample_prisma_def sample_users_def)

lemma sample_user_u5:
  "user_findUnique_id sample_prisma ''u5'' =
     Inr (Some \<lparr>user_id = ''u5'', user_email = ''dee@od.test'', user_password = ''h5'',
                user_userName = ''dee'', userRoles = [], userOffice = []\<rparr>)"
  by (simp add: user_findUnique_id_def sample_prisma_def sample_users_def)

lemma sample_user_u6_by_email:
  "user_findUnique_email sample_prisma ''eli@od.test'' =
     Inr (Some \<lparr>user_id = ''u6'', user_email = ''eli@od.test'', user_password = ''h6'',
                user_userName = ''eli'', userRoles = [\<lparr>ur_role = None\<rparr>],
                userOffice = []\<rparr>)"
  by (simp add: user_findUnique_email_def sample_prisma_def sample_users_def)

lemma someSuperAdmin_False_role:
  "someSuperAdmin (userRoles user) = Inr False
   \<Longrightarrow> \<exists>r. firstRoleName user = Inr r \<and> r \<noteq> ''superAdmin''"
  by (cases "userRoles user") (auto simp: firstRoleName_def split: option.splits if_splits)

lemma firstRoleName_superAdmin_some:
  "firstRoleName user = Inr ''superAdmin'' \<Longrightarrow> someSuperAdmin (userRoles user) = Inr True"
  by (cases "userRoles user") (auto simp: firstRoleName_def split: option.splits if_splits)

lemma user_findUnique_id_found:
  "user_findUnique_id prisma userId = Inr (Some user) \<Longrightarrow> user_id user = userId"
  by (auto simp: user_findUnique_id_def find_Some_iff split: option.splits)

lemma filterBoolean_id:
  "\<forall>s \<in> set xs. s \<noteq> [] \<Longrightarrow> filterBoolean xs = xs"
  by (simp add: filterBoolean_def)

lemma requestUser_no_identity:
  "getProp (Some (requestUser p)) ''userId'' = None"
  "getProp (Some (requestUser p)) ''roleName'' = None"
  by (simp_all add: getProp_def requestUser_def)

section \<open>The access-control gate\<close>

text \<open>
  C9. With no required roles the gate allows, whatever the request carries. With required
  roles, for a user object that carries a \<open>userId\<close> and a role name other than
  organizationAdmin, the gate allows exactly when the role name is one of the required
  roles, and otherwise throws the \<open>ForbiddenException\<close> whose message lists the required
  roles joined by a comma and a space.
\<close>

theorem gate_role_membership:
  "(requiredRoles = None \<or> requiredRoles = Some [] \<longrightarrow>
      canActivate requiredRoles request = Inr True)
   \<and> (rs \<noteq> [] \<and> truthy (getProp (req_user request) ''userId'')
        \<and> getProp (req_user request) ''roleName'' = Some (JString r) \<and> r \<noteq> []
        \<and> r \<noteq> ''organizationAdmin'' \<longrightarrow>
        (canActivate (Some rs) request = Inr True \<longleftrightarrow> r \<in> set rs)
        \<and> (r \<notin> set rs \<longrightarrow>
             canActivate (Some rs) request =
               Inl (ForbiddenException
                      (''Access denied. Required roles: '' @ join '', '' rs))))"
  by (auto simp: canActivate_def array_includes_def)

theorem gate_role_membership_witness:
  "canActivate (Some []) \<lparr>req_user = None, req_organizationId = None\<rparr> = Inr True
   \<and> canActivate (Some [''superAdmin'', ''manager''])
        \<lparr>req_user = Some [''userId'' \<mapsto> JString ''u1'', ''roleName'' \<mapsto> JString ''manager''],
         req_organizationId = None\<rparr> = Inr True
   \<and> canActivate (Some [''superAdmin'', ''manager''])
        \<lparr>req_user = Some [''userId'' \<mapsto> JString ''u1'', ''roleName'' \<mapsto> JString ''user''],
         req_organizationId = None\<rparr>
       = Inl (ForbiddenException ''Access denied. Required roles: superAdmin, manager'')"
  using
    gate_role_membership [where requiredRoles = "Some []"
      and request = "\<lparr>req_user = None, req_organizationId = None\<rparr>"
      and rs = "[]" and r = "[]"]
    gate_role_membership [where requiredRoles = None
      and request = "\<lparr>req_user = Some [''userId'' \<mapsto> JString ''u1'',
                                       ''roleName'' \<mapsto> JString ''manager''],
                      req_organizationId = None\<rparr>"
      and rs = "[''superAdmin'', ''manager'']" and r = "''manager''"]
    gate_role_membership [where requiredRoles = None
      and request = "\<lparr>req_user = Some [''userId'' \<mapsto> JString ''u1'',
                                       ''roleName'' \<mapsto> JString ''user''],
                      req_organizationId = None\<rparr>"
      and rs = "[''superAdmin'', ''manager'']" and r = "''user''"]
  by (simp add: getProp_def)

text \<open>
  C4. The organization-admin branch never looks at the required roles: with any non-empty
  list of required roles, a user object that carries a \<open>userId\<close> and the role name
  organizationAdmin is allowed as soon as the request has a truthy \<open>organizationId\<close>. The
  witness takes the list that holds superAdmin only, as the \<open>update\<close> route of the
  organization controller declares it.
\<close>

theorem orgAdmin_bypass_ignores_required_roles:
  assumes "rs \<noteq> []"
    and "truthy (getProp (req_user request) ''userId'')"
    and "getProp (req_user request) ''roleName'' = Some (JString ''organizationAdmin'')"
    and "truthy (req_organizationId request)"
  shows "canActivate (Some rs) request = Inr True"
  using assms by (simp add: canActivate_def)

theorem orgAdmin_bypass_ignores_required_roles_witness:
  "''organizationAdmin'' \<notin> set [''superAdmin'']
   \<and> canActivate (Some [''superAdmin''])
        \<lparr>req_user = Some [''userId'' \<mapsto> JString ''u3'',
                          ''roleName'' \<mapsto> JString ''organizationAdmin''],
         req_organizationId = Some (JString ''org2'')\<rparr> = Inr True"
  using orgAdmin_bypass_ignores_required_roles [where rs = "[''superAdmin'']"
      and request = "\<lparr>req_user = Some [''userId'' \<mapsto> JString ''u3'',
                                       ''roleName'' \<mapsto> JString ''organizationAdmin''],
                      req_organizationId = Some (JString ''org2'')\<rparr>"]
  by (simp add: getProp_def)

text \<open>
  C5. For a user object that carries a \<open>userId\<close> and the role name organizationAdmin, and
  any non-empty list of required roles, the gate allows if and only if the request has a
  truthy \<open>organizationId\<close>; without it the gate throws
  \<open>ForbiddenException('Organization context missing')\<close>, also when organizationAdmin is
  one of the required roles.
\<close>

theorem orgAdmin_needs_organization_context:
  assumes "rs \<noteq> []"
    and "truthy (getProp (req_user request) ''userId'')"
    and "getProp (req_user request) ''roleName'' = Some (JString ''organizationAdmin'')"
  shows "(canActivate (Some rs) request = Inr True \<longleftrightarrow> truthy (req_organizationId request))
         \<and> (\<not> truthy (req_organizationId request) \<longrightarrow>
              canActivate (Some rs) request =
                Inl (ForbiddenException ''Organization context missing''))"
  using assms by (simp add: canActivate_def)

theorem orgAdmin_needs_organization_context_witness:
  "canActivate (Some [''organizationAdmin''])
     \<lparr>req_user = Some [''userId'' \<mapsto> JString ''u3'',
                       ''roleName'' \<mapsto> JString ''organizationAdmin''],
      req_organizationId = None\<rparr>
     = Inl (ForbiddenException ''Organization context missing'')
   \<and> canActivate (Some [''organizationAdmin''])
     \<lparr>req_user = Some [''userId'' \<mapsto> JString ''u3'',
                       ''roleName'' \<mapsto> JString ''organizationAdmin''],
      req_organizationId = Some (JString ''org2'')\<rparr> = Inr True"
  using
    orgAdmin_needs_organization_context [where rs = "[''organizationAdmin'']"
      and request = "\<lparr>req_user = Some [''userId'' \<mapsto> JString ''u3'',
                                       ''roleName'' \<mapsto> JString ''organizationAdmin''],
                      req_organizationId = None\<rparr>"]
    orgAdmin_needs_organization_context [where rs = "[''organizationAdmin'']"
      and request = "\<lparr>req_user = Some [''userId'' \<mapsto> JString ''u3'',
                                       ''roleName'' \<mapsto> JString ''organizationAdmin''],
                      req_organizationId = Some (JString ''org2'')\<rparr>"]
  by (simp add: getProp_def)

text \<open>
  C7. The object \<open>validate\<close> returns has the properties \<open>id\<close>, \<open>email\<close>,
  \<open>organizationId\<close>, \<open>features\<close>, \<open>isSuperAdmin\<close> and \<open>role\<close>. The gate reads \<open>userId\<close> and
  \<open>roleName\<close>, finds neither, and with any non-empty list of required roles throws
  \<open>ForbiddenException('Missing userId or roleName in token')\<close>, whatever the role of
  the principal and whatever organization context the request has.
\<close>

theorem validated_principal_fails_gate:
  assumes "rs \<noteq> []" and "validate prisma payload = Inr p"
  shows "canActivate (Some rs) \<lparr>req_user = Some (requestUser p), req_organizationId = ctx\<rparr> =
           Inl (ForbiddenException ''Missing userId or roleName in token'')"
  using assms(1) by (simp add: canActivate_def requestUser_no_identity)

theorem validated_principal_fails_gate_witness:
  "validate sample_prisma (tokenFor ''u3'' ''bob@od.test'') =
     Inr \<lparr>p_id = ''u3'', p_email = ''bob@od.test'', p_organizationId = Some ''org2'',
          p_features = [''reports'', ''billing''], p_isSuperAdmin = False,
          p_role = ''organizationAdmin''\<rparr>
   \<and> canActivate (Some [''organizationAdmin''])
        \<lparr>req_user = Some (requestUser
            \<lparr>p_id = ''u3'', p_email = ''bob@od.test'', p_organizationId = Some ''org2'',
             p_features = [''reports'', ''billing''], p_isSuperAdmin = False,
             p_role = ''organizationAdmin''\<rparr>),
         req_organizationId = Some (JString ''org2'')\<rparr> =
       Inl (ForbiddenException ''Missing userId or roleName in token'')"
proof -
  have roles: "[''organizationAdmin''] \<noteq> []"
    by simp
  have valid: "validate sample_prisma (tokenFor ''u3'' ''bob@od.test'') =
     Inr \<lparr>p_id = ''u3'', p_email = ''bob@od.test'', p_organizationId = Some ''org2'',
          p_features = [''reports'', ''billing''], p_isSuperAdmin = False,
          p_role = ''organizationAdmin''\<rparr>"
    by (simp add: val_defs sample_user_u3 expr_defs org2_def tokenFor_def)
  from valid validated_principal_fails_gate [OF roles valid, where ctx = "Some (JString ''org2'')"]
  show ?thesis by simp
qed

section \<open>Superadmin\<close>

text \<open>
  C1, as the code has it. For a user whose first role binding is superAdmin, the payload
  both auth services generate has \<open>isSuperAdmin = true\<close>, no \<open>organizationId\<close> and
  \<open>features = ALL_FEATURES\<close>; and validating a token for that user (with non-empty subject
  and email) returns a principal with \<open>isSuperAdmin = true\<close> and role superAdmin. Nothing is
  said here about the \<open>organizationId\<close> and \<open>features\<close> of the validated principal.
\<close>

theorem superAdmin_first_binding:
  assumes found: "user_findUnique_id prisma userId = Inr (Some user)"
    and first: "firstRoleName user = Inr ''superAdmin''"
  shows "generateTokenPayload ALL_FEATURES prisma userId =
           Inr \<lparr>sub = user_id user, email = user_email user, role = ''superAdmin'',
                organizationId = None, features = ALL_FEATURES, isSuperAdmin = True\<rparr>
         \<and> generateTokenPayload_alt ALL_FEATURES prisma userId =
           Inr \<lparr>sub = user_id user, email = user_email user, role = ''superAdmin'',
                organizationId = None, features = ALL_FEATURES, isSuperAdmin = True\<rparr>
         \<and> (t_sub payload = userId \<and> userId \<noteq> [] \<and> t_email payload \<noteq> [] \<longrightarrow>
              (\<exists>p. validate prisma payload = Inr p \<and> p_isSuperAdmin p
                   \<and> p_role p = ''superAdmin'' \<and> p_id p = user_id user
                   \<and> p_email p = user_email user))"
proof -
  have a: "generateTokenPayload ALL_FEATURES prisma userId =
           Inr \<lparr>sub = user_id user, email = user_email user, role = ''superAdmin'',
                organizationId = None, features = ALL_FEATURES, isSuperAdmin = True\<rparr>"
    using found first by (simp add: generateTokenPayload_def generateTokenPayload_try_def)
  have b: "generateTokenPayload_alt ALL_FEATURES prisma userId =
           Inr \<lparr>sub = user_id user, email = user_email user, role = ''superAdmin'',
                organizationId = None, features = ALL_FEATURES, isSuperAdmin = True\<rparr>"
    using found first
    by (simp add: generateTokenPayload_alt_def generateTokenPayload_alt_try_def)
  have some: "someSuperAdmin (userRoles user) = Inr True"
    using first by (rule firstRoleName_superAdmin_some)
  have c: "\<exists>p. validate prisma payload = Inr p \<and> p_isSuperAdmin p
                   \<and> p_role p = ''superAdmin'' \<and> p_id p = user_id user
                   \<and> p_email p = user_email user"
    if "t_sub payload = userId" "userId \<noteq> []" "t_email payload \<noteq> []"
    using that found first some by (simp add: validate_def validate_try_def Let_def)
  from a b c show ?thesis by blast
qed

theorem superAdmin_first_binding_witness:
  "generateTokenPayload sample_features sample_prisma ''u1'' =
     Inr \<lparr>sub = ''u1'', email = ''root@od.test'', role = ''superAdmin'',
          organizationId = None, features = sample_features, isSuperAdmin = True\<rparr>
   \<and> generateTokenPayload_alt sample_features sample_prisma ''u1'' =
     Inr \<lparr>sub = ''u1'', email = ''root@od.test'', role = ''superAdmin'',
          organizationId = None, features = sample_features, isSuperAdmin = True\<rparr>
   \<and> (\<exists>p. validate sample_prisma (tokenFor ''u1'' ''root@od.test'') = Inr p
          \<and> p_isSuperAdmin p \<and> p_role p = ''superAdmin'' \<and> p_id p = ''u1''
          \<and> p_email p = ''root@od.test'')"
proof -
  have first: "firstRoleName
        \<lparr>user_id = ''u1'', user_email = ''root@od.test'', user_password = ''h1'',
         user_userName = ''root'',
         userRoles = [\<lparr>ur_role = Some \<lparr>roleName = ''superAdmin''\<rparr>\<rparr>],
         userOffice = [\<lparr>uo_organization = Some org2\<rparr>]\<rparr> = Inr ''superAdmin''"
    by (simp add: firstRoleName_def)
  from superAdmin_first_binding [OF sample_user_u1 first,
      where payload = "tokenFor ''u1'' ''root@od.test''" and ALL_FEATURES = sample_features]
  show ?thesis by (simp add: tokenFor_def)
qed

text \<open>
  The claim as stated fails twice. User u4 has a superAdmin binding, the second of two, and
  the resolver gives \<open>isSuperAdmin = false\<close> and no features. User u1 is superadmin by the
  only binding and has an office: the validator returns that office's organization id and
  its two features, not the catalog of three.
\<close>

theorem superAdmin_binding_counterexample:
  "generateTokenPayload sample_features sample_prisma ''u4'' =
     Inr \<lparr>sub = ''u4'', email = ''cy@od.test'', role = ''manager'',
          organizationId = None, features = [], isSuperAdmin = False\<rparr>
   \<and> validate sample_prisma (tokenFor ''u1'' ''root@od.test'') =
     Inr \<lparr>p_id = ''u1'', p_email = ''root@od.test'', p_organizationId = Some ''org2'',
          p_features = [''reports'', ''billing''], p_isSuperAdmin = True,
          p_role = ''superAdmin''\<rparr>"
  by (simp add: gen_defs val_defs query_defs expr_defs sample_defs)

section \<open>Users of an organization\<close>

text \<open>
  C2, as the code has it. Take a user with non-empty id and email and no superAdmin
  binding, whose first office has an organization with a non-empty id and no empty feature
  string. The payload \<open>generateTokenPayload\<close> resolves for that user, signed and decoded,
  validates to a principal with the payload's role, organization id, features and
  superadmin flag, and with the payload's \<open>sub\<close> and \<open>email\<close> as \<open>id\<close> and \<open>email\<close>. The same
  holds for the second auth service when its lookup of the organization by
  \<open>organization.userId\<close> returns that organization.
\<close>

theorem round_trip_organization_user:
  assumes found: "user_findUnique_id prisma userId = Inr (Some user)"
    and ident: "userId \<noteq> []" "user_email user \<noteq> []"
    and nonSA: "someSuperAdmin (userRoles user) = Inr False"
    and org: "firstOrganization user = Some org" "org_id org \<noteq> []"
    and feats: "\<forall>f \<in> set (org_features org). feature f \<noteq> []"
  shows "(\<exists>payload. generateTokenPayload ALL_FEATURES prisma userId = Inr payload
            \<and> validate prisma (decoded payload iat exp) =
                Inr \<lparr>p_id = sub payload, p_email = email payload,
                     p_organizationId = organizationId payload,
                     p_features = features payload,
                     p_isSuperAdmin = isSuperAdmin payload, p_role = role payload\<rparr>)
         \<and> (organization_findFirst prisma userId = Inr (Some org) \<longrightarrow>
             (\<exists>payload. generateTokenPayload_alt ALL_FEATURES prisma userId = Inr payload
               \<and> validate prisma (decoded payload iat exp) =
                   Inr \<lparr>p_id = sub payload, p_email = email payload,
                        p_organizationId = organizationId payload,
                        p_features = features payload,
                        p_isSuperAdmin = isSuperAdmin payload, p_role = role payload\<rparr>))"
proof -
  from nonSA obtain r where r: "firstRoleName user = Inr r" "r \<noteq> ''superAdmin''"
    using someSuperAdmin_False_role by blast
  have uid: "user_id user = userId"
    using found by (rule user_findUnique_id_found)
  have keep: "filterBoolean (map feature (org_features org)) = map feature (org_features org)"
    using feats by (simp add: filterBoolean_id)
  let ?payload = "\<lparr>sub = userId, email = user_email user, role = r,
                    organizationId = Some (org_id org),
                    features = map feature (org_features org), isSuperAdmin = False\<rparr>"
  have gen: "generateTokenPayload ALL_FEATURES prisma userId = Inr ?payload"
    using found r org uid keep
    by (simp add: generateTokenPayload_def generateTokenPayload_try_def)
  have val: "validate prisma (decoded ?payload iat exp) =
               Inr \<lparr>p_id = userId, p_email = user_email user,
                    p_organizationId = Some (org_id org),
                    p_features = map feature (org_features org),
                    p_isSuperAdmin = False, p_role = r\<rparr>"
    using found ident nonSA r org uid
    by (simp add: validate_def validate_try_def decoded_def)
  have alt: "generateTokenPayload_alt ALL_FEATURES prisma userId = Inr ?payload"
    if "organization_findFirst prisma userId = Inr (Some org)"
    using that found r uid
    by (simp add: generateTokenPayload_alt_def generateTokenPayload_alt_try_def)
  have one: "\<exists>payload. generateTokenPayload ALL_FEATURES prisma userId = Inr payload
            \<and> validate prisma (decoded payload iat exp) =
                Inr \<lparr>p_id = sub payload, p_email = email payload,
                     p_organizationId = organizationId payload,
                     p_features = features payload,
                     p_isSuperAdmin = isSuperAdmin payload, p_role = role payload\<rparr>"
    using gen val by simp
  have two: "\<exists>payload. generateTokenPayload_alt ALL_FEATURES prisma userId = Inr payload
               \<and> validate prisma (decoded payload iat exp) =
                   Inr \<lparr>p_id = sub payload, p_email = email payload,
                        p_organizationId = organizationId payload,
                        p_features = features payload,
                        p_isSuperAdmin = isSuperAdmin payload, p_role = role payload\<rparr>"
    if "organization_findFirst prisma userId = Inr (Some org)"
    using alt [OF that] val by simp
  from one two show ?thesis by blast
qed

theorem round_trip_organization_user_witness:
  "(\<exists>payload. generateTokenPayload sample_features sample_prisma ''u3'' = Inr payload
       \<and> validate sample_prisma (decoded payload 0 3600) =
           Inr \<lparr>p_id = sub payload, p_email = email payload,
                p_organizationId = organizationId payload, p_features = features payload,
                p_isSuperAdmin = isSuperAdmin payload, p_role = role payload\<rparr>)
   \<and> (\<exists>payload. generateTokenPayload_alt sample_features sample_prisma ''u3'' = Inr payload
       \<and> validate sample_prisma (decoded payload 0 3600) =
           Inr \<lparr>p_id = sub payload, p_email = email payload,
                p_organizationId = organizationId payload, p_features = features payload,
                p_isSuperAdmin = isSuperAdmin payload, p_role = role payload\<rparr>)"
proof -
  let ?u3 = "\<lparr>user_id = ''u3'', user_email = ''bob@od.test'', user_password = ''h3'',
              user_userName = ''bob'',
              userRoles = [\<lparr>ur_role = Some \<lparr>roleName = ''organizationAdmin''\<rparr>\<rparr>],
              userOffice = [\<lparr>uo_organization = Some org2\<rparr>]\<rparr>"
  have ident: "''u3'' \<noteq> []" "user_email ?u3 \<noteq> []"
    by simp_all
  have nonSA: "someSuperAdmin (userRoles ?u3) = Inr False"
    by simp
  have org: "firstOrganization ?u3 = Some org2" "org_id org2 \<noteq> []"
    by (simp_all add: firstOrganization_def org2_def)
  have feats: "\<forall>f \<in> set (org_features org2). feature f \<noteq> []"
    by (simp add: org2_def)
  have byAdmin: "organization_findFirst sample_prisma ''u3'' = Inr (Some org2)"
    by (simp add: organization_findFirst_def sample_prisma_def org1_def org2_def)
  from round_trip_organization_user [OF sample_user_u3 ident nonSA org feats,
      where ALL_FEATURES = sample_features and iat = 0 and exp = 3600] byAdmin
  show ?thesis by simp
qed

text \<open>
  The round trip as the claim states it fails on four users of the sample data. u5 has no
  organization: the resolver returns a payload, the validator throws. u1 is superadmin
  with an office: the resolver gives no organization id and the catalog, the validator
  the office's organization and its features. u2's organization has an empty feature
  string: the resolver drops it, the validator keeps it. u7 has an empty email: the
  resolver returns a payload, the validator rejects the token's format.
\<close>

theorem round_trip_counterexample:
  "generateTokenPayload sample_features sample_prisma ''u5'' =
     Inr \<lparr>sub = ''u5'', email = ''dee@od.test'', role = ''user'', organizationId = None,
          features = [], isSuperAdmin = False\<rparr>
   \<and> validate sample_prisma
        (decoded \<lparr>sub = ''u5'', email = ''dee@od.test'', role = ''user'',
                  organizationId = None, features = [], isSuperAdmin = False\<rparr> 0 3600) =
     Inl (UnauthorizedException ''User has no organization access'')
   \<and> generateTokenPayload sample_features sample_prisma ''u1'' =
     Inr \<lparr>sub = ''u1'', email = ''root@od.test'', role = ''superAdmin'',
          organizationId = None, features = [''reports'', ''billing'', ''audit''],
          isSuperAdmin = True\<rparr>
   \<and> validate sample_prisma
        (decoded \<lparr>sub = ''u1'', email = ''root@od.test'', role = ''superAdmin'',
                  organizationId = None, features = [''reports'', ''billing'', ''audit''],
                  isSuperAdmin = True\<rparr> 0 3600) =
     Inr \<lparr>p_id = ''u1'', p_email = ''root@od.test'', p_organizationId = Some ''org2'',
          p_features = [''reports'', ''billing''], p_isSuperAdmin = True,
          p_role = ''superAdmin''\<rparr>
   \<and> generateTokenPayload sample_features sample_prisma ''u2'' =
     Inr \<lparr>sub = ''u2'', email = ''ann@od.test'', role = ''organizationAdmin'',
          organizationId = Some ''org1'', features = [''reports''], isSuperAdmin = False\<rparr>
   \<and> validate sample_prisma
        (decoded \<lparr>sub = ''u2'', email = ''ann@od.test'', role = ''organizationAdmin'',
                  organizationId = Some ''org1'', features = [''reports''],
                  isSuperAdmin = False\<rparr> 0 3600) =
     Inr \<lparr>p_id = ''u2'', p_email = ''ann@od.test'', p_organizationId = Some ''org1'',
          p_features = [''reports'', []], p_isSuperAdmin = False,
          p_role = ''organizationAdmin''\<rparr>
   \<and> generateTokenPayload sample_features sample_prisma ''u7'' =
     Inr \<lparr>sub = ''u7'', email = [], role = ''organizationAdmin'',
          organizationId = Some ''org2'', features = [''reports'', ''billing''],
          isSuperAdmin = False\<rparr>
   \<and> validate sample_prisma
        (decoded \<lparr>sub = ''u7'', email = [], role = ''organizationAdmin'',
                  organizationId = Some ''org2'', features = [''reports'', ''billing''],
                  isSuperAdmin = False\<rparr> 0 3600) =
     Inl (UnauthorizedException ''Invalid token format'')"
  by (simp add: gen_defs val_defs query_defs expr_defs sample_defs)

text \<open>
  C8, at the input where the code departs from it. User u2 is not superadmin and the first
  office's organization org1 has the feature rows \<open>reports\<close> and the empty string.
  \<open>generateTokenPayload\<close> of auth.service.ts returns organization id org1 and the
  features without the empty string; \<open>validate\<close> returns the same organization id and
  keeps the empty string, as does \<open>generateTokenPayload\<close> of the second auth service.
\<close>

theorem validation_keeps_empty_feature:
  "generateTokenPayload sample_features sample_prisma ''u2'' =
     Inr \<lparr>sub = ''u2'', email = ''ann@od.test'', role = ''organizationAdmin'',
          organizationId = Some ''org1'', features = [''reports''], isSuperAdmin = False\<rparr>
   \<and> validate sample_prisma (tokenFor ''u2'' ''ann@od.test'') =
     Inr \<lparr>p_id = ''u2'', p_email = ''ann@od.test'', p_organizationId = Some ''org1'',
          p_features = [''reports'', []], p_isSuperAdmin = False,
          p_role = ''organizationAdmin''\<rparr>
   \<and> generateTokenPayload_alt sample_features sample_prisma ''u2'' =
     Inr \<lparr>sub = ''u2'', email = ''ann@od.test'', role = ''organizationAdmin'',
          organizationId = Some ''org1'', features = [''reports'', []],
          isSuperAdmin = False\<rparr>"
  by (simp add: gen_defs val_defs query_defs expr_defs sample_defs)

text \<open>
  C6. When the token has a subject, the subject's user exists, none of the user's role bindings
  is superAdmin, and the user's first office gives no organization id (no office, no
  organization, or an empty id), \<open>validate\<close> returns no principal: it throws
  \<open>UnauthorizedException('User has no organization access')\<close>, or, for a token without
  email, the \<open>UnauthorizedException('Invalid token format')\<close> of the check that comes
  first.
\<close>

theorem orphan_validation_unauthorized:
  assumes "t_sub payload \<noteq> []"
    and "user_findUnique_id prisma (t_sub payload) = Inr (Some user)"
    and "someSuperAdmin (userRoles user) = Inr False"
    and "map_option org_id (firstOrganization user) = None
         \<or> map_option org_id (firstOrganization user) = Some []"
  shows "validate prisma payload =
           Inl (UnauthorizedException
                  (if t_email payload = [] then ''Invalid token format''
                   else ''User has no organization access''))"
  using assms by (auto simp: validate_def validate_try_def)

theorem orphan_validation_unauthorized_witness:
  "validate sample_prisma (tokenFor ''u5'' ''dee@od.test'') =
     Inl (UnauthorizedException ''User has no organization access'')"
proof -
  let ?u5 = "\<lparr>user_id = ''u5'', user_email = ''dee@od.test'', user_password = ''h5'',
              user_userName = ''dee'', userRoles = [], userOffice = []\<rparr>"
  have subject: "t_sub (tokenFor ''u5'' ''dee@od.test'') \<noteq> []"
    by (simp add: tokenFor_def)
  have found: "user_findUnique_id sample_prisma (t_sub (tokenFor ''u5'' ''dee@od.test'')) =
                 Inr (Some ?u5)"
    using sample_user_u5 by (simp add: tokenFor_def)
  have nonSA: "someSuperAdmin (userRoles ?u5) = Inr False"
    by simp
  have orphan: "map_option org_id (firstOrganization ?u5) = None
                \<or> map_option org_id (firstOrganization ?u5) = Some []"
    by (simp add: firstOrganization_def)
  from orphan_validation_unauthorized [OF subject found nonSA orphan]
  show ?thesis by (simp add: tokenFor_def)
qed

section \<open>Errors\<close>

text \<open>
  C3, at the input where the code departs from it. The sample data has no user u9. The
  body of \<open>generateTokenPayload\<close> throws \<open>NotFoundException('User not found')\<close>, and the
  \<open>catch\<close> of the same method replaces it: what the caller gets, from either auth
  service, is \<open>InternalServerErrorException('Error generating auth token')\<close>.
\<close>

theorem missing_user_becomes_internal_error:
  "generateTokenPayload_try sample_features sample_prisma ''u9'' =
     Inl (NotFoundException ''User not found'')
   \<and> generateTokenPayload sample_features sample_prisma ''u9'' =
     Inl (InternalServerErrorException ''Error generating auth token'')
   \<and> generateTokenPayload_alt sample_features sample_prisma ''u9'' =
     Inl (InternalServerErrorException ''Error generating auth token'')"
  by (simp add: gen_defs query_defs sample_defs)

text \<open>
  C10. In \<open>login\<close> of the second auth service, once the user is fetched by email and the
  password matches, a role derivation that throws does not make \<open>login\<close> throw: the
  method returns a response whose token is the empty string, with the user's id, email
  and name, no role, no organization id, \<open>features = []\<close> and \<open>isSuperAdmin = false\<close>.
\<close>

theorem login_alt_role_failure_empty_token:
  assumes "user_findUnique_email prisma (dto_email dto) = Inr (Some user)"
    and "compare (dto_password dto) (user_password user)"
    and "firstRoleName user = Inl err"
  shows "login_alt compare sign ALL_FEATURES prisma dto =
           Inr \<lparr>token = [],
                ar_user = \<lparr>au_id = user_id user, au_email = user_email user,
                           au_userName = user_userName user, au_role = None,
                           au_organizationId = None, au_features = Some [],
                           au_isSuperAdmin = Some False\<rparr>\<rparr>"
  using assms by (simp add: login_alt_def)

theorem login_alt_role_failure_empty_token_witness:
  "login_alt (=) (\<lambda>payload. ''jwt'') sample_features sample_prisma
       \<lparr>dto_email = ''eli@od.test'', dto_password = ''h6''\<rparr> =
     Inr \<lparr>token = [],
          ar_user = \<lparr>au_id = ''u6'', au_email = ''eli@od.test'', au_userName = ''eli'',
                     au_role = None, au_organizationId = None, au_features = Some [],
                     au_isSuperAdmin = Some False\<rparr>\<rparr>"
proof -
  let ?dto = "\<lparr>dto_email = ''eli@od.test'', dto_password = ''h6''\<rparr>"
  let ?u6 = "\<lparr>user_id = ''u6'', user_email = ''eli@od.test'', user_password = ''h6'',
              user_userName = ''eli'', userRoles = [\<lparr>ur_role = None\<rparr>],
              userOffice = []\<rparr>"
  have found: "user_findUnique_email sample_prisma (dto_email ?dto) = Inr (Some ?u6)"
    using sample_user_u6_by_email by simp
  have password: "dto_password ?dto = user_password ?u6"
    by simp
  have throws: "firstRoleName ?u6 =
                  Inl (TypeError ''Cannot read properties of undefined (reading roleName)'')"
    by (simp add: firstRoleName_def)
  from login_alt_role_failure_empty_token [where compare = "(=)", OF found password throws,
      where sign = "\<lambda>payload. ''jwt''" and ALL_FEATURES = sample_features]
  show ?thesis by simp
qed

end
